theory Spec2Isabelle
  imports Main "HOL-Library.AList"
begin

section \<open>Values\<close>

text \<open>
  The client builds Python dictionaries, lists, strings and integers that are sent as
  JSON. A dictionary is an association list in insertion order, as Python keeps it.
\<close>

datatype json =
    JNull
  | JBool bool
  | JInt int
  | JStr string
  | JList "json list"
  | JObj "(string \<times> json) list"

subsection \<open>Formatting an integer, as an f-string does\<close>

definition digit_char :: "nat \<Rightarrow> char" where
  "digit_char d = ''0123456789'' ! d"

function str_nat :: "nat \<Rightarrow> string" where
  "str_nat n = (if n < 10 then [digit_char n] else str_nat (n div 10) @ [digit_char (n mod 10)])"
  by pat_completeness auto
termination
  by (relation "measure id") auto

declare str_nat.simps [simp del]

definition str_int :: "int \<Rightarrow> string" where
  "str_int i = (if i < 0 then CHR ''-'' # str_nat (nat (- i)) else str_nat (nat i))"

section \<open>message.py\<close>

definition image_block :: "json \<Rightarrow> json" where
  "image_block url = JObj [(''type'', JStr ''image_url''), (''image_url'', JObj [(''url'', url)])]"

definition text_block :: "string \<Rightarrow> json" where
  "text_block text = JObj [(''type'', JStr ''text''), (''text'', JStr text)]"

text \<open>Python truthiness of an \<open>Optional[List[str]]\<close>: \<open>None\<close> and \<open>[]\<close> are falsy.\<close>

definition truthy_list :: "'a list option \<Rightarrow> bool" where
  "truthy_list xs = (case xs of None \<Rightarrow> False | Some ys \<Rightarrow> ys \<noteq> [])"

text \<open>
  \<open>create_message\<close>: \<open>content\<close> starts empty, receives one image block per URL (the
  \<open>for\<close> loop with \<open>append\<close> is the left fold), then the text block; the text-only
  case returns the bare string.
\<close>

definition create_message :: "string \<Rightarrow> string list option \<Rightarrow> json list" where
  "create_message text image_urls =
     (let content = [];
          content = (case image_urls of
                       Some (u # us) \<Rightarrow> foldl (\<lambda>c url. c @ [image_block (JStr url)]) content (u # us)
                     | _ \<Rightarrow> content);
          content = content @ [text_block text]
      in if \<not> truthy_list image_urls
         then [JObj [(''role'', JStr ''user''), (''content'', JStr text)]]
         else [JObj [(''role'', JStr ''user''), (''content'', JList content)]])"

definition determine_default_text :: "int \<Rightarrow> string" where
  "determine_default_text image_count =
     (if image_count = 0 then ''What's in this image?''
      else if image_count = 1 then ''What's in this image?''
      else ''I have '' @ str_int image_count @ '' images. Please describe each image.'')"

section \<open>cli.py\<close>

definition fallback_image_url :: string where
  "fallback_image_url =
     ''https://github.com/alex-crouch/resources/blob/main/zsh-diskfree/images/servingsuggestion.gif?raw=true''"

definition determine_text_and_images ::
  "string option \<Rightarrow> string list option \<Rightarrow> string \<times> string list option" where
  "determine_text_and_images text_arg image_urls_arg =
     (case text_arg of
        Some t \<Rightarrow> (t, image_urls_arg)
      | None \<Rightarrow>
          (case image_urls_arg of
             Some (u # us) \<Rightarrow> (determine_default_text (int (length (u # us))), image_urls_arg)
           | _ \<Rightarrow> (determine_default_text 1, Some [fallback_image_url])))"

section \<open>client.py\<close>

subsection \<open>The interpreter's \<open>int\<close> on a string and \<open>os.getenv\<close>\<close>

text \<open>
  The constructor applies the builtin \<open>int\<close> to a string. The builtin is not code of
  the client, so it is a parameter \<open>py_int\<close> of the constructor: \<open>py_int s\<close> is
  \<open>Some n\<close> when \<open>int(s)\<close> is \<open>n\<close> and \<open>None\<close> when \<open>int(s)\<close> raises
  \<open>ValueError\<close>. Everything proved of the constructor holds for every such function.

  On a string of one to 640 ASCII digits \<open>int\<close> returns the decimal value.
  \<open>int_of_digits\<close> is \<open>int\<close> cut down to these strings; it stands for \<open>int\<close> in
  the examples, which read such strings only (\<open>30000\<close>, \<open>8080\<close>).
\<close>

definition is_digit :: "char \<Rightarrow> bool" where
  "is_digit c = (let n = (of_char c :: nat) in 48 \<le> n \<and> n \<le> 57)"

definition digit_val :: "char \<Rightarrow> int" where
  "digit_val c = int (of_char c) - 48"

definition int_of_digits :: "string \<Rightarrow> int option" where
  "int_of_digits s =
     (if s \<noteq> [] \<and> length s \<le> 640 \<and> list_all is_digit s
      then Some (foldl (\<lambda>acc x. 10 * acc + digit_val x) 0 s)
      else None)"

text \<open>The process environment is a map from names to values.\<close>

definition getenv :: "(string \<rightharpoonup> string) \<Rightarrow> string \<Rightarrow> string \<Rightarrow> string" where
  "getenv env key dflt = (case env key of Some v \<Rightarrow> v | None \<Rightarrow> dflt)"

subsection \<open>The constructor\<close>

record client =
  host :: string
  port :: int
  model :: string
  base_url :: string

datatype init_error = ValueError string

definition default_model :: string where
  "default_model = ''OPEA/Mistral-Small-3.1-24B-Instruct-2503-int4-AutoRound-awq-sym''"

text \<open>
  \<open>x or y\<close> on an optional string: \<open>None\<close> and the empty string are falsy, and then
  the value is \<open>y\<close>, whatever it is.
\<close>

definition or_str :: "string option \<Rightarrow> string \<Rightarrow> string" where
  "or_str x y = (case x of Some s \<Rightarrow> if s \<noteq> [] then s else y | None \<Rightarrow> y)"

text \<open>
  \<open>port or int(os.getenv("SGLANG_PORT", "30000"))\<close>: the right operand is evaluated,
  and may raise, only when \<open>port\<close> is \<open>None\<close> or \<open>0\<close>.
\<close>

definition port_from_env :: "(string \<Rightarrow> int option) \<Rightarrow> (string \<rightharpoonup> string) \<Rightarrow> init_error + int" where
  "port_from_env py_int env =
     (let s = getenv env ''SGLANG_PORT'' ''30000''
      in case py_int s of None \<Rightarrow> Inl (ValueError s) | Some n \<Rightarrow> Inr n)"

definition init ::
  "(string \<Rightarrow> int option) \<Rightarrow> string option \<Rightarrow> int option \<Rightarrow> string option
   \<Rightarrow> (string \<rightharpoonup> string) \<Rightarrow> init_error + client" where
  "init py_int host_arg port_arg model_arg env =
     (let h = or_str host_arg (getenv env ''SGLANG_HOST'' ''localhost'')
      in case (case port_arg of
                 Some p \<Rightarrow> if p \<noteq> 0 then Inr p else port_from_env py_int env
               | None \<Rightarrow> port_from_env py_int env) of
           Inl e \<Rightarrow> Inl e
         | Inr p \<Rightarrow>
             (let m = or_str model_arg default_model
              in Inr \<lparr>host = h, port = p, model = m,
                      base_url = ''http://'' @ h @ '':'' @ str_int p\<rparr>))"

subsection \<open>The HTTP library\<close>

text \<open>
  What \<open>requests\<close> gives the client. A call either returns a response or raises. Most
  exceptions it raises belong to the \<open>RequestException\<close> family (the class and the
  message are kept), but exceptions outside the family come out of it too, such as
  urllib3's \<open>LocationParseError\<close> for a host with an empty label; of these the class
  name and the message are kept. An \<open>except RequestException\<close> clause catches the first
  kind only.

  Of a response the client reads the status, the body text and the result of
  \<open>json()\<close>, which is the parsed body or the exception that \<open>json()\<close> raises.
\<close>

datatype exc_class = ConnectionError | Timeout | HTTPError | JSONDecodeError | InvalidURL
  | TooManyRedirects

datatype exn = RequestException exc_class string | OtherException string string

fun is_request_exception :: "exn \<Rightarrow> bool" where
  "is_request_exception (RequestException k msg) = True"
| "is_request_exception (OtherException name msg) = False"

fun exc_str :: "exn \<Rightarrow> string" where
  "exc_str (RequestException k msg) = msg"
| "exc_str (OtherException name msg) = msg"

record response =
  status_code :: int
  resp_reason :: string
  resp_url :: string
  resp_text :: string
  resp_json :: "exn + json"

datatype http_outcome = Raises exn | Returns response

datatype http_request = GET string nat | POST string json

text \<open>
  The server and the network are a function from the request to its outcome. The world
  the client acts on is the list of requests handed to the library and the lines
  written to standard error.
\<close>

record world =
  sent :: "http_request list"
  stderr :: "string list"

definition requests_post ::
  "(http_request \<Rightarrow> http_outcome) \<Rightarrow> string \<Rightarrow> json \<Rightarrow> world \<Rightarrow> http_outcome \<times> world" where
  "requests_post net u data w = (net (POST u data), w\<lparr>sent := sent w @ [POST u data]\<rparr>)"

definition requests_get ::
  "(http_request \<Rightarrow> http_outcome) \<Rightarrow> string \<Rightarrow> nat \<Rightarrow> world \<Rightarrow> http_outcome \<times> world" where
  "requests_get net u timeout w = (net (GET u timeout), w\<lparr>sent := sent w @ [GET u timeout]\<rparr>)"

text \<open>
  \<open>Response.raise_for_status\<close> raises \<open>HTTPError\<close> for a client error status (400 to
  499) and for a server error status (500 to 599), and returns for every other status.
\<close>

definition raise_for_status :: "response \<Rightarrow> exn option" where
  "raise_for_status r =
     (if 400 \<le> status_code r \<and> status_code r < 500
      then Some (RequestException HTTPError
                   (str_int (status_code r) @ '' Client Error: '' @ resp_reason r
                    @ '' for url: '' @ resp_url r))
      else if 500 \<le> status_code r \<and> status_code r < 600
      then Some (RequestException HTTPError
                   (str_int (status_code r) @ '' Server Error: '' @ resp_reason r
                    @ '' for url: '' @ resp_url r))
      else None)"

definition print_stderr :: "string \<Rightarrow> world \<Rightarrow> world" where
  "print_stderr line w = w\<lparr>stderr := stderr w @ [line]\<rparr>"

subsection \<open>The request operations\<close>

text \<open>
  The dictionary display \<open>{"model": ..., "messages": ..., "max_tokens": ..., **kwargs}\<close>:
  each keyword is stored in turn; a key that is already there keeps its place and takes
  the new value. The keywords are those of the call other than \<open>messages\<close> and
  \<open>max_tokens\<close>, which Python binds to the parameters of these names.
\<close>

definition dict_unpack :: "(string \<times> json) list \<Rightarrow> (string \<times> json) list \<Rightarrow> (string \<times> json) list" where
  "dict_unpack d kwargs = foldl (\<lambda>acc kv. AList.update (fst kv) (snd kv) acc) d kwargs"

text \<open>
  The \<open>try\<close> block holds the POST, the status check and \<open>json()\<close> (or \<open>text\<close>). An
  exception of the \<open>RequestException\<close> family raised in it is printed to standard
  error and raised again; any other exception leaves the function as it is, with
  nothing printed.
\<close>

definition make_request ::
  "client \<Rightarrow> (http_request \<Rightarrow> http_outcome) \<Rightarrow> json list \<Rightarrow> int \<Rightarrow> (string \<times> json) list
   \<Rightarrow> world \<Rightarrow> (exn + json) \<times> world" where
  "make_request self net messages max_tokens kwargs w =
     (let u = base_url self @ ''/v1/chat/completions'';
          data = JObj (dict_unpack [(''model'', JStr (model self)),
                                    (''messages'', JList messages),
                                    (''max_tokens'', JInt max_tokens)] kwargs);
          (out, w1) = requests_post net u data w;
          handler = (\<lambda>e. if is_request_exception e
                          then (Inl e, print_stderr (''Error making request to '' @ u @ '': '' @ exc_str e) w1)
                          else (Inl e, w1))
      in case out of
           Raises e \<Rightarrow> handler e
         | Returns r \<Rightarrow>
             (case raise_for_status r of
                Some e \<Rightarrow> handler e
              | None \<Rightarrow>
                  (case resp_json r of
                     Inl e \<Rightarrow> handler e
                   | Inr j \<Rightarrow> (Inr j, w1))))"

definition make_request_raw ::
  "client \<Rightarrow> (http_request \<Rightarrow> http_outcome) \<Rightarrow> json list \<Rightarrow> int \<Rightarrow> (string \<times> json) list
   \<Rightarrow> world \<Rightarrow> (exn + string) \<times> world" where
  "make_request_raw self net messages max_tokens kwargs w =
     (let u = base_url self @ ''/v1/chat/completions'';
          data = JObj (dict_unpack [(''model'', JStr (model self)),
                                    (''messages'', JList messages),
                                    (''max_tokens'', JInt max_tokens)] kwargs);
          (out, w1) = requests_post net u data w;
          handler = (\<lambda>e. if is_request_exception e
                          then (Inl e, print_stderr (''Error making request to '' @ u @ '': '' @ exc_str e) w1)
                          else (Inl e, w1))
      in case out of
           Raises e \<Rightarrow> handler e
         | Returns r \<Rightarrow>
             (case raise_for_status r of
                Some e \<Rightarrow> handler e
              | None \<Rightarrow> (Inr (resp_text r), w1)))"

text \<open>
  \<open>health_check\<close> returns \<open>False\<close> for an exception of the \<open>RequestException\<close> family;
  any other exception leaves the function.
\<close>

definition health_check ::
  "client \<Rightarrow> (http_request \<Rightarrow> http_outcome) \<Rightarrow> world \<Rightarrow> (exn + bool) \<times> world" where
  "health_check self net w =
     (let (out, w1) = requests_get net (base_url self @ ''/health'') 5 w
      in case out of
           Raises e \<Rightarrow> if is_request_exception e then (Inr False, w1) else (Inl e, w1)
         | Returns r \<Rightarrow> (Inr (status_code r = 200), w1))"

section \<open>message.py on a store of list objects\<close>

text \<open>
  \<open>create_message\<close> once more, with the Python lists it touches as objects in a store:
  an address is an index into the store, \<open>image_urls\<close> is the address of the caller's
  list, \<open>content = []\<close> allocates, and \<open>append\<close> updates the store in place. The
  \<open>for\<close> loop is the list iterator: it reads the length and the next element of the
  list from the store at every step, so it ends only if the list stops growing; not
  returning is \<open>None\<close>.
\<close>

type_synonym addr = nat

type_synonym heap = "json list list"

definition alloc :: "json list \<Rightarrow> heap \<Rightarrow> addr \<times> heap" where
  "alloc xs h = (length h, h @ [xs])"

definition list_append :: "addr \<Rightarrow> json \<Rightarrow> heap \<Rightarrow> heap" where
  "list_append a x h = h[a := h ! a @ [x]]"

partial_function (option) append_images :: "addr \<Rightarrow> addr \<Rightarrow> nat \<Rightarrow> heap \<Rightarrow> heap option" where
  "append_images image_urls content i h =
     (if i < length (h ! image_urls)
      then append_images image_urls content (Suc i)
             (list_append content (image_block (h ! image_urls ! i)) h)
      else Some h)"

declare append_images.simps [code]

definition truthy_ref :: "addr option \<Rightarrow> heap \<Rightarrow> bool" where
  "truthy_ref r h = (case r of None \<Rightarrow> False | Some a \<Rightarrow> h ! a \<noteq> [])"

definition create_message_heap :: "string \<Rightarrow> addr option \<Rightarrow> heap \<Rightarrow> (json list \<times> heap) option" where
  "create_message_heap text image_urls h =
     (let (content, h1) = alloc [] h
      in case (if truthy_ref image_urls h1
               then (case image_urls of
                       Some a \<Rightarrow> append_images a content 0 h1
                     | None \<Rightarrow> Some h1)
               else Some h1) of
           None \<Rightarrow> None
         | Some h2 \<Rightarrow>
             (let h3 = list_append content (text_block text) h2
              in if \<not> truthy_ref image_urls h3
                 then Some ([JObj [(''role'', JStr ''user''), (''content'', JStr text)]], h3)
                 else Some ([JObj [(''role'', JStr ''user''), (''content'', JList (h3 ! content))]], h3)))"

section \<open>Properties of message.py and cli.py\<close>

lemma foldl_snoc_map: "foldl (\<lambda>c x. c @ [f x]) acc xs = acc @ map f xs"
  by (induction xs arbitrary: acc) auto

lemma create_message_no_images:
  "\<not> truthy_list image_urls \<Longrightarrow>
   create_message text image_urls = [JObj [(''role'', JStr ''user''), (''content'', JStr text)]]"
  by (simp add: create_message_def)

lemma create_message_images:
  "urls \<noteq> [] \<Longrightarrow> create_message text (Some urls) =
   [JObj [(''role'', JStr ''user''),
          (''content'', JList (map (\<lambda>u. image_block (JStr u)) urls @ [text_block text]))]]"
  by (cases urls) (simp_all add: create_message_def truthy_list_def foldl_snoc_map)

text \<open>
  Claim C2. For every string \<open>text\<close>, \<open>create_message(text, None)\<close> and
  \<open>create_message(text, [])\<close> are equal, and both are the one-element list holding the
  message with role \<open>user\<close> whose content is \<open>text\<close> itself, the empty string
  included; the content is the bare string and not a list holding one text block.
\<close>

theorem create_message_text_only:
  "create_message text None = [JObj [(''role'', JStr ''user''), (''content'', JStr text)]]
   \<and> create_message text (Some []) = [JObj [(''role'', JStr ''user''), (''content'', JStr text)]]
   \<and> create_message text None = create_message text (Some [])
   \<and> create_message [] None = [JObj [(''role'', JStr ''user''), (''content'', JStr [])]]
   \<and> create_message text None \<noteq> [JObj [(''role'', JStr ''user''), (''content'', JList [text_block text])]]"
  by (simp add: create_message_no_images truthy_list_def)

text \<open>
  Claim C3. For every string \<open>text\<close> and every non-empty list \<open>urls\<close>,
  \<open>create_message(text, urls)\<close> is one message with role \<open>user\<close> whose content is a
  list of \<open>len(urls) + 1\<close> blocks: the block at index \<open>i < len(urls)\<close> is the image
  block of \<open>urls[i]\<close>, the URL passed through unchanged, and the last block is the one
  text block carrying \<open>text\<close>.
\<close>

theorem create_message_with_images:
  assumes "urls \<noteq> []"
  shows "\<exists>blocks. create_message text (Some urls) = [JObj [(''role'', JStr ''user''), (''content'', JList blocks)]]
     \<and> length blocks = length urls + 1
     \<and> (\<forall>i<length urls. blocks ! i = JObj [(''type'', JStr ''image_url''), (''image_url'', JObj [(''url'', JStr (urls ! i))])])
     \<and> blocks ! length urls = JObj [(''type'', JStr ''text''), (''text'', JStr text)]"
proof -
  let ?blocks = "map (\<lambda>u. image_block (JStr u)) urls @ [text_block text]"
  have "create_message text (Some urls) = [JObj [(''role'', JStr ''user''), (''content'', JList ?blocks)]]"
    using assms by (rule create_message_images)
  moreover have "length ?blocks = length urls + 1" by simp
  moreover have "\<forall>i<length urls. ?blocks ! i = JObj [(''type'', JStr ''image_url''), (''image_url'', JObj [(''url'', JStr (urls ! i))])]"
    by (simp add: nth_append image_block_def)
  moreover have "?blocks ! length urls = JObj [(''type'', JStr ''text''), (''text'', JStr text)]"
    by (simp add: nth_append text_block_def)
  ultimately show ?thesis by blast
qed

text \<open>
  The same at two URLs, the second one empty: the blocks come out in the order of the
  input, the empty URL is kept, and the text block is last.
\<close>

theorem create_message_with_images_witness:
  "[''https://a/1.jpg'', ''''] \<noteq> [] \<and>
   create_message ''Describe'' (Some [''https://a/1.jpg'', '''']) =
     [JObj [(''role'', JStr ''user''),
            (''content'', JList [JObj [(''type'', JStr ''image_url''), (''image_url'', JObj [(''url'', JStr ''https://a/1.jpg'')])],
                                JObj [(''type'', JStr ''image_url''), (''image_url'', JObj [(''url'', JStr '''')])],
                                JObj [(''type'', JStr ''text''), (''text'', JStr ''Describe'')]])]]"
proof -
  have ne: "[''https://a/1.jpg'', ''''] \<noteq> ([] :: string list)" by simp
  obtain blocks where b:
    "create_message ''Describe'' (Some [''https://a/1.jpg'', '''']) = [JObj [(''role'', JStr ''user''), (''content'', JList blocks)]]"
    "length blocks = length [''https://a/1.jpg'', ''''] + 1"
    "\<forall>i<length [''https://a/1.jpg'', '''']. blocks ! i = JObj [(''type'', JStr ''image_url''), (''image_url'', JObj [(''url'', JStr ([''https://a/1.jpg'', ''''] ! i))])]"
    "blocks ! length [''https://a/1.jpg'', ''''] = JObj [(''type'', JStr ''text''), (''text'', JStr ''Describe'')]"
    using create_message_with_images [OF ne, of "''Describe''"] by blast
  from b(2) obtain x y z where xyz: "blocks = [x, y, z]"
    by (cases blocks; cases "tl blocks"; cases "tl (tl blocks)") auto
  from b(3) have "blocks ! 0 = JObj [(''type'', JStr ''image_url''), (''image_url'', JObj [(''url'', JStr ''https://a/1.jpg'')])]"
    "blocks ! 1 = JObj [(''type'', JStr ''image_url''), (''image_url'', JObj [(''url'', JStr '''')])]"
    by simp_all
  with b(4) xyz have "blocks = [JObj [(''type'', JStr ''image_url''), (''image_url'', JObj [(''url'', JStr ''https://a/1.jpg'')])],
                                JObj [(''type'', JStr ''image_url''), (''image_url'', JObj [(''url'', JStr '''')])],
                                JObj [(''type'', JStr ''text''), (''text'', JStr ''Describe'')]]"
    by simp
  with b(1) ne show ?thesis by simp
qed

text \<open>
  Claim C4. \<open>determine_default_text(0)\<close> and \<open>determine_default_text(1)\<close> are both
  \<open>What's in this image?\<close>; for every \<open>N\<close> from 2 on the result is
  \<open>I have N images. Please describe each image.\<close> with \<open>N\<close> in decimal; and a
  negative \<open>N\<close> goes through the same template.
\<close>

theorem determine_default_text_cases:
  "determine_default_text 0 = ''What's in this image?''
   \<and> determine_default_text 1 = ''What's in this image?''
   \<and> (2 \<le> N \<or> N < 0 \<longrightarrow>
        determine_default_text N = ''I have '' @ str_int N @ '' images. Please describe each image.'')"
  by (simp add: determine_default_text_def)

text \<open>At 12 images and at the negative count -1.\<close>

theorem determine_default_text_cases_witness:
  "(2::int) \<le> 12 \<and> (-1::int) < 0
   \<and> determine_default_text 12 = ''I have 12 images. Please describe each image.''
   \<and> determine_default_text (-1) = ''I have -1 images. Please describe each image.''"
proof -
  have s: "str_int 12 = ''12''" "str_int (-1) = ''-1''"
    by (simp_all add: str_int_def str_nat.simps digit_char_def)
  show ?thesis
    using determine_default_text_cases [of 12] determine_default_text_cases [of "-1"]
    by (simp add: s)
qed

text \<open>
  Claim C8. The fallback policy of the command line: a text argument that is given is
  used as it is, with the image URLs as given (possibly none); without one, a non-empty
  list of URLs gets the default text for its length and is kept; and with neither, the
  result is the default text for one image and the single built-in image URL.
\<close>

theorem determine_text_and_images_policy:
  "determine_text_and_images (Some t) image_urls_arg = (t, image_urls_arg)
   \<and> (urls \<noteq> [] \<longrightarrow> determine_text_and_images None (Some urls)
          = (determine_default_text (int (length urls)), Some urls))
   \<and> determine_text_and_images None None = (determine_default_text 1, Some [fallback_image_url])
   \<and> determine_text_and_images None (Some []) = (determine_default_text 1, Some [fallback_image_url])"
  by (cases urls) (simp_all add: determine_text_and_images_def)

text \<open>At two URLs without a text, and at an empty text argument without URLs.\<close>

theorem determine_text_and_images_policy_witness:
  "[''u1'', ''u2''] \<noteq> []
   \<and> determine_text_and_images None (Some [''u1'', ''u2'']) = (determine_default_text 2, Some [''u1'', ''u2''])
   \<and> determine_text_and_images (Some '''') None = ('''', None)"
  using determine_text_and_images_policy [of "''''" None "[''u1'', ''u2'']"]
  by simp


section \<open>Properties of client.py\<close>

lemma int_of_digits_30000: "int_of_digits ''30000'' = Some 30000"
  by (simp add: int_of_digits_def is_digit_def digit_val_def)

lemma int_of_digits_8080: "int_of_digits ''8080'' = Some 8080"
  by (simp add: int_of_digits_def is_digit_def digit_val_def)

lemma port_from_env_cases:
  "port_from_env py_int env =
     (case py_int (case env ''SGLANG_PORT'' of Some v \<Rightarrow> v | None \<Rightarrow> ''30000'') of
        None \<Rightarrow> Inl (ValueError (case env ''SGLANG_PORT'' of Some v \<Rightarrow> v | None \<Rightarrow> ''30000''))
      | Some n \<Rightarrow> Inr n)"
  by (simp add: port_from_env_def getenv_def Let_def)

text \<open>
  Claim C1, as the constructor has it, for every behaviour \<open>py_int\<close> of the builtin
  \<open>int\<close>. Construction either returns a client or raises \<open>ValueError\<close>, the latter
  exactly when the port argument is \<open>None\<close> or \<open>0\<close> and \<open>int\<close> rejects the string it
  is given, which is the value of \<open>SGLANG_PORT\<close> when set and \<open>30000\<close> when not. In
  the client returned: the host is the argument when it is given and not empty, else
  \<open>SGLANG_HOST\<close> when set, else \<open>localhost\<close>; the port is the argument when it is
  given and not zero, else what \<open>int\<close> makes of \<open>SGLANG_PORT\<close> when set, else what it
  makes of \<open>30000\<close>, which is 30000; the model is the argument when it is given and
  not empty, else the fixed model identifier, and no environment variable is read for
  it; the base URL is \<open>http://host:port\<close>.
\<close>

theorem init_resolution:
  "(\<exists>c. init py_int host_arg port_arg model_arg env = Inr c
      \<and> (\<forall>h. host_arg = Some h \<and> h \<noteq> [] \<longrightarrow> host c = h)
      \<and> (host_arg = None \<or> host_arg = Some [] \<longrightarrow>
           host c = (case env ''SGLANG_HOST'' of Some v \<Rightarrow> v | None \<Rightarrow> ''localhost''))
      \<and> (\<forall>p. port_arg = Some p \<and> p \<noteq> 0 \<longrightarrow> port c = p)
      \<and> (port_arg = None \<or> port_arg = Some 0 \<longrightarrow>
           py_int (case env ''SGLANG_PORT'' of Some v \<Rightarrow> v | None \<Rightarrow> ''30000'') = Some (port c))
      \<and> ((port_arg = None \<or> port_arg = Some 0) \<and> env ''SGLANG_PORT'' = None
           \<and> py_int ''30000'' = Some 30000 \<longrightarrow> port c = 30000)
      \<and> (\<forall>m. model_arg = Some m \<and> m \<noteq> [] \<longrightarrow> model c = m)
      \<and> (model_arg = None \<or> model_arg = Some [] \<longrightarrow> model c = default_model)
      \<and> base_url c = ''http://'' @ host c @ '':'' @ str_int (port c))
   \<or> ((port_arg = None \<or> port_arg = Some 0)
        \<and> py_int (case env ''SGLANG_PORT'' of Some v \<Rightarrow> v | None \<Rightarrow> ''30000'') = None
        \<and> init py_int host_arg port_arg model_arg env
            = Inl (ValueError (case env ''SGLANG_PORT'' of Some v \<Rightarrow> v | None \<Rightarrow> ''30000'')))"
proof -
  let ?s = "case env ''SGLANG_PORT'' of Some v \<Rightarrow> v | None \<Rightarrow> ''30000''"
  let ?pe = "case port_arg of
               Some p \<Rightarrow> if p \<noteq> 0 then Inr p else port_from_env py_int env
             | None \<Rightarrow> port_from_env py_int env"
  show ?thesis
  proof (cases ?pe)
    case (Inl e)
    then have falsy: "port_arg = None \<or> port_arg = Some 0" and pe: "port_from_env py_int env = Inl e"
      by (auto split: option.splits if_splits)
    from pe have "py_int ?s = None" "e = ValueError ?s"
      by (auto simp: port_from_env_cases split: option.splits)
    moreover have "init py_int host_arg port_arg model_arg env = Inl e"
      using Inl by (simp add: init_def)
    ultimately show ?thesis using falsy by blast
  next
    case (Inr p)
    let ?c = "\<lparr>host = or_str host_arg (getenv env ''SGLANG_HOST'' ''localhost''), port = p,
               model = or_str model_arg default_model,
               base_url = ''http://'' @ or_str host_arg (getenv env ''SGLANG_HOST'' ''localhost'') @ '':'' @ str_int p\<rparr>"
    have i: "init py_int host_arg port_arg model_arg env = Inr ?c"
      using Inr by (simp add: init_def Let_def)
    have h1: "\<forall>h. host_arg = Some h \<and> h \<noteq> [] \<longrightarrow> host ?c = h"
      by (simp add: or_str_def)
    have h2: "host_arg = None \<or> host_arg = Some [] \<longrightarrow>
           host ?c = (case env ''SGLANG_HOST'' of Some v \<Rightarrow> v | None \<Rightarrow> ''localhost'')"
      by (auto simp: or_str_def getenv_def)
    have p1: "\<forall>q. port_arg = Some q \<and> q \<noteq> 0 \<longrightarrow> port ?c = q"
      using Inr by auto
    have p2: "port_arg = None \<or> port_arg = Some 0 \<longrightarrow> py_int ?s = Some (port ?c)"
      using Inr by (auto simp: port_from_env_cases split: option.splits)
    have p3: "(port_arg = None \<or> port_arg = Some 0) \<and> env ''SGLANG_PORT'' = None
           \<and> py_int ''30000'' = Some 30000 \<longrightarrow> port ?c = 30000"
      using p2 by auto
    have m1: "\<forall>m. model_arg = Some m \<and> m \<noteq> [] \<longrightarrow> model ?c = m"
      by (simp add: or_str_def)
    have m2: "model_arg = None \<or> model_arg = Some [] \<longrightarrow> model ?c = default_model"
      by (auto simp: or_str_def)
    have b: "base_url ?c = ''http://'' @ host ?c @ '':'' @ str_int (port ?c)"
      by simp
    from i h1 h2 p1 p2 p3 m1 m2 b show ?thesis by blast
  qed
qed

text \<open>
  With an explicit host, no port argument and \<open>SGLANG_PORT\<close> set to \<open>8080\<close>: the
  explicit host wins over \<open>SGLANG_HOST\<close>, the port comes from the environment, the
  model is the default. With nothing given and nothing set, the port is 30000.
\<close>

theorem init_resolution_witness:
  "(\<exists>c. init int_of_digits (Some ''custom-host'') None None
           [''SGLANG_HOST'' \<mapsto> ''env-host'', ''SGLANG_PORT'' \<mapsto> ''8080''] = Inr c
      \<and> host c = ''custom-host'' \<and> port c = 8080 \<and> model c = default_model
      \<and> base_url c = ''http://custom-host:8080'')
   \<and> (\<exists>c. init int_of_digits None None None Map.empty = Inr c
      \<and> host c = ''localhost'' \<and> port c = 30000 \<and> model c = default_model)"
proof -
  have s: "str_int 8080 = ''8080''"
    by (simp add: str_int_def str_nat.simps digit_char_def)
  have a: "\<exists>c. init int_of_digits (Some ''custom-host'') None None
           [''SGLANG_HOST'' \<mapsto> ''env-host'', ''SGLANG_PORT'' \<mapsto> ''8080''] = Inr c
      \<and> host c = ''custom-host'' \<and> port c = 8080 \<and> model c = default_model
      \<and> base_url c = ''http://custom-host:8080''"
    using init_resolution [of int_of_digits "Some ''custom-host''" None None
        "[''SGLANG_HOST'' \<mapsto> ''env-host'', ''SGLANG_PORT'' \<mapsto> ''8080'']"]
    by (auto simp: int_of_digits_8080 s)
  have b: "\<exists>c. init int_of_digits None None None Map.empty = Inr c
      \<and> host c = ''localhost'' \<and> port c = 30000 \<and> model c = default_model"
    using init_resolution [of int_of_digits None None None Map.empty]
    by (auto simp: int_of_digits_30000)
  from a b show ?thesis by blast
qed

text \<open>
  Claim C1 as stated fails twice. With \<open>SGLANG_MODEL\<close> set and no model argument the
  model is the fixed identifier, not the variable's value; and the explicit arguments
  \<open>host = ""\<close> and \<open>port = 0\<close> are not the values stored.
\<close>

theorem init_resolution_counterexample:
  "init int_of_digits None None None [''SGLANG_MODEL'' \<mapsto> ''env-model'']
     = Inr \<lparr>host = ''localhost'', port = 30000,
            model = ''OPEA/Mistral-Small-3.1-24B-Instruct-2503-int4-AutoRound-awq-sym'',
            base_url = ''http://localhost:30000''\<rparr>
   \<and> init int_of_digits (Some '''') (Some 0) None Map.empty
     = Inr \<lparr>host = ''localhost'', port = 30000,
            model = ''OPEA/Mistral-Small-3.1-24B-Instruct-2503-int4-AutoRound-awq-sym'',
            base_url = ''http://localhost:30000''\<rparr>"
proof -
  have s: "str_int 30000 = ''30000''"
    by (simp add: str_int_def str_nat.simps digit_char_def)
  show ?thesis
    by (simp add: init_def port_from_env_cases int_of_digits_30000 or_str_def getenv_def
        default_model_def s)
qed



lemma update_fresh: "k \<notin> fst ` set d \<Longrightarrow> AList.update k v d = d @ [(k, v)]"
  by (induction d) auto

lemma dict_unpack_disjoint:
  "distinct (map fst kwargs) \<Longrightarrow> fst ` set kwargs \<inter> fst ` set d = {} \<Longrightarrow>
   dict_unpack d kwargs = d @ kwargs"
  unfolding dict_unpack_def
proof (induction kwargs arbitrary: d)
  case Nil
  then show ?case by simp
next
  case (Cons kv kwargs)
  have fresh: "fst kv \<notin> fst ` set d" using Cons.prems(2) by auto
  have "foldl (\<lambda>acc kv. AList.update (fst kv) (snd kv) acc) (d @ [kv]) kwargs = (d @ [kv]) @ kwargs"
    using Cons.prems by (intro Cons.IH) auto
  then show ?case using fresh by (simp add: update_fresh)
qed

lemma raise_for_status_error:
  "400 \<le> status_code r \<and> status_code r < 600 \<Longrightarrow>
   \<exists>msg. raise_for_status r = Some (RequestException HTTPError msg)"
  by (simp add: raise_for_status_def)

lemma raise_for_status_ok:
  "\<not> (400 \<le> status_code r \<and> status_code r < 600) \<Longrightarrow> raise_for_status r = None"
  by (auto simp: raise_for_status_def)

text \<open>
  Claim C5, as the code has it. Whatever the GET to \<open>{base_url}/health\<close> (timeout 5,
  the one request sent) does: when it returns a response, \<open>health_check\<close> returns
  whether the status is 200; when it raises an exception of the \<open>RequestException\<close>
  family (connection error, timeout and the others), \<open>health_check\<close> returns false;
  and when it raises any other exception, \<open>health_check\<close> raises that exception. So
  the result is true if and only if the GET returns a response with status 200, and
  \<open>health_check\<close> raises if and only if the GET raises outside the family.
\<close>

theorem health_check_outcomes:
  "let out = net (GET (base_url self @ ''/health'') 5);
       H = health_check self net w
   in (\<forall>r. out = Returns r \<longrightarrow> fst H = Inr (status_code r = 200))
    \<and> (\<forall>k msg. out = Raises (RequestException k msg) \<longrightarrow> fst H = Inr False)
    \<and> (\<forall>name msg. out = Raises (OtherException name msg) \<longrightarrow> fst H = Inl (OtherException name msg))
    \<and> (fst H = Inr True \<longleftrightarrow> (\<exists>r. out = Returns r \<and> status_code r = 200))
    \<and> ((\<exists>e. fst H = Inl e) \<longleftrightarrow> (\<exists>name msg. out = Raises (OtherException name msg)))
    \<and> snd H = w\<lparr>sent := sent w @ [GET (base_url self @ ''/health'') 5]\<rparr>"
proof (cases "net (GET (base_url self @ ''/health'') 5)")
  case (Raises e)
  then show ?thesis
    by (cases e) (simp_all add: health_check_def requests_get_def Let_def)
next
  case (Returns r)
  then show ?thesis
    by (simp add: health_check_def requests_get_def Let_def)
qed

text \<open>
  At a timeout, at a response with status 500, at one with status 200, and at an
  interrupt raised during the GET.
\<close>

theorem health_check_outcomes_witness:
  "fst (health_check \<lparr>host = ''h'', port = 1, model = ''m'', base_url = ''http://h:1''\<rparr>
          (\<lambda>q. Raises (RequestException Timeout ''timed out'')) \<lparr>sent = [], stderr = []\<rparr>) = Inr False
   \<and> fst (health_check \<lparr>host = ''h'', port = 1, model = ''m'', base_url = ''http://h:1''\<rparr>
          (\<lambda>q. Returns \<lparr>status_code = 500, resp_reason = ''Internal Server Error'', resp_url = ''http://h:1/health'',
                          resp_text = '''', resp_json = Inl (RequestException JSONDecodeError ''Expecting value'')\<rparr>)
          \<lparr>sent = [], stderr = []\<rparr>) = Inr False
   \<and> fst (health_check \<lparr>host = ''h'', port = 1, model = ''m'', base_url = ''http://h:1''\<rparr>
          (\<lambda>q. Returns \<lparr>status_code = 200, resp_reason = ''OK'', resp_url = ''http://h:1/health'',
                          resp_text = '''', resp_json = Inl (RequestException JSONDecodeError ''Expecting value'')\<rparr>)
          \<lparr>sent = [], stderr = []\<rparr>) = Inr True
   \<and> fst (health_check \<lparr>host = ''h'', port = 1, model = ''m'', base_url = ''http://h:1''\<rparr>
          (\<lambda>q. Raises (OtherException ''KeyboardInterrupt'' [])) \<lparr>sent = [], stderr = []\<rparr>)
       = Inl (OtherException ''KeyboardInterrupt'' [])"
  using health_check_outcomes [of "\<lambda>q. Raises (OtherException ''KeyboardInterrupt'' [])"
          "\<lparr>host = ''h'', port = 1, model = ''m'', base_url = ''http://h:1''\<rparr>" "\<lparr>sent = [], stderr = []\<rparr>"]
        health_check_outcomes [of "\<lambda>q. Raises (RequestException Timeout ''timed out'')"
          "\<lparr>host = ''h'', port = 1, model = ''m'', base_url = ''http://h:1''\<rparr>" "\<lparr>sent = [], stderr = []\<rparr>"]
        health_check_outcomes [of "\<lambda>q. Returns \<lparr>status_code = 500, resp_reason = ''Internal Server Error'',
                          resp_url = ''http://h:1/health'',
                          resp_text = '''', resp_json = Inl (RequestException JSONDecodeError ''Expecting value'')\<rparr>"
          "\<lparr>host = ''h'', port = 1, model = ''m'', base_url = ''http://h:1''\<rparr>" "\<lparr>sent = [], stderr = []\<rparr>"]
        health_check_outcomes [of "\<lambda>q. Returns \<lparr>status_code = 200, resp_reason = ''OK'', resp_url = ''http://h:1/health'',
                          resp_text = '''', resp_json = Inl (RequestException JSONDecodeError ''Expecting value'')\<rparr>"
          "\<lparr>host = ''h'', port = 1, model = ''m'', base_url = ''http://h:1''\<rparr>" "\<lparr>sent = [], stderr = []\<rparr>"]
  by (simp add: Let_def)

text \<open>
  Claim C5 as stated fails where the transport raises outside the \<open>RequestException\<close>
  family: for a client whose host has an empty label, \<open>example..com\<close>, the GET raises
  urllib3's \<open>LocationParseError\<close>, which the \<open>except\<close> clause does not catch, and
  \<open>health_check\<close> raises it instead of returning false.
\<close>

theorem health_check_counterexample:
  "fst (health_check
          \<lparr>host = ''example..com'', port = 30000, model = ''m'', base_url = ''http://example..com:30000''\<rparr>
          (\<lambda>q. Raises (OtherException ''LocationParseError''
                          ''Failed to parse: 'example..com', label empty or too long''))
          \<lparr>sent = [], stderr = []\<rparr>)
   = Inl (OtherException ''LocationParseError''
            ''Failed to parse: 'example..com', label empty or too long'')"
  by (simp add: health_check_def requests_get_def)

text \<open>
  Claim C6, as the code has it. \<open>make_request\<close> hands one POST for
  \<open>{base_url}/v1/chat/completions\<close> to the library, whose body is the dictionary of
  \<open>model\<close>, \<open>messages\<close>, \<open>max_tokens\<close> and the keyword parameters (appended in order
  when their names are distinct and none of the three). If the POST raises an exception
  of the \<open>RequestException\<close> family, that exception is written to standard error in one
  line and raised again unchanged; any other exception it raises reaches the caller
  unchanged with nothing written. If the response has a status from 400 to 599, an
  \<open>HTTPError\<close> is logged and raised in the same way. For every other status, below 200
  and from 300 up included, the result of \<open>json()\<close> is returned and nothing is logged
  when the body parses; when \<open>json()\<close> raises, that exception is raised, and logged if
  it is of the family.
\<close>

theorem make_request_outcomes:
  "let u = base_url self @ ''/v1/chat/completions'';
       data = JObj (dict_unpack [(''model'', JStr (model self)), (''messages'', JList messages),
                                 (''max_tokens'', JInt max_tokens)] kwargs);
       w1 = w\<lparr>sent := sent w @ [POST u data]\<rparr>;
       logged = (\<lambda>e. (Inl e, w1\<lparr>stderr := stderr w @ [''Error making request to '' @ u @ '': '' @ exc_str e]\<rparr>));
       R = make_request self net messages max_tokens kwargs w
   in (\<forall>k msg. net (POST u data) = Raises (RequestException k msg) \<longrightarrow> R = logged (RequestException k msg))
    \<and> (\<forall>name msg. net (POST u data) = Raises (OtherException name msg) \<longrightarrow>
          R = (Inl (OtherException name msg), w1))
    \<and> (\<forall>r. net (POST u data) = Returns r \<and> 400 \<le> status_code r \<and> status_code r < 600 \<longrightarrow>
          (\<exists>msg. R = logged (RequestException HTTPError msg)))
    \<and> (\<forall>r j. net (POST u data) = Returns r \<and> \<not> (400 \<le> status_code r \<and> status_code r < 600)
              \<and> resp_json r = Inr j \<longrightarrow> R = (Inr j, w1))
    \<and> (\<forall>r e. net (POST u data) = Returns r \<and> \<not> (400 \<le> status_code r \<and> status_code r < 600)
              \<and> resp_json r = Inl e \<longrightarrow>
          R = (if is_request_exception e then logged e else (Inl e, w1)))
    \<and> sent (snd R) = sent w @ [POST u data]
    \<and> (distinct (map fst kwargs)
         \<and> fst ` set kwargs \<inter> {''model'', ''messages'', ''max_tokens''} = {} \<longrightarrow>
        data = JObj ([(''model'', JStr (model self)), (''messages'', JList messages),
                      (''max_tokens'', JInt max_tokens)] @ kwargs))"
proof -
  define u where "u = base_url self @ ''/v1/chat/completions''"
  define d0 where "d0 = [(''model'', JStr (model self)), (''messages'', JList messages),
                          (''max_tokens'', JInt max_tokens)]"
  define data where "data = JObj (dict_unpack d0 kwargs)"
  define w1 where "w1 = w\<lparr>sent := sent w @ [POST u data]\<rparr>"
  define logged where
    "logged = (\<lambda>e. (Inl e :: exn + json,
                     w1\<lparr>stderr := stderr w @ [''Error making request to '' @ u @ '': '' @ exc_str e]\<rparr>))"
  define handler where
    "handler = (\<lambda>e. if is_request_exception e then logged e else (Inl e, w1))"
  define R where "R = make_request self net messages max_tokens kwargs w"
  have R: "R = (case net (POST u data) of
                  Raises e \<Rightarrow> handler e
                | Returns r \<Rightarrow>
                    (case raise_for_status r of
                       Some e \<Rightarrow> handler e
                     | None \<Rightarrow> (case resp_json r of Inl e \<Rightarrow> handler e | Inr j \<Rightarrow> (Inr j, w1))))"
    unfolding R_def make_request_def handler_def logged_def w1_def data_def d0_def u_def
    by (simp add: requests_post_def print_stderr_def Let_def
          split: http_outcome.splits option.splits sum.splits)
  have a: "\<forall>k msg. net (POST u data) = Raises (RequestException k msg) \<longrightarrow> R = logged (RequestException k msg)"
    by (simp add: R handler_def)
  have a': "\<forall>name msg. net (POST u data) = Raises (OtherException name msg) \<longrightarrow>
          R = (Inl (OtherException name msg), w1)"
    by (simp add: R handler_def)
  have b: "\<forall>r. net (POST u data) = Returns r \<and> 400 \<le> status_code r \<and> status_code r < 600 \<longrightarrow>
          (\<exists>msg. R = logged (RequestException HTTPError msg))"
    using raise_for_status_error by (fastforce simp: R handler_def)
  have c: "\<forall>r j. net (POST u data) = Returns r \<and> \<not> (400 \<le> status_code r \<and> status_code r < 600)
              \<and> resp_json r = Inr j \<longrightarrow> R = (Inr j, w1)"
    by (auto simp: R raise_for_status_ok)
  have d: "\<forall>r e. net (POST u data) = Returns r \<and> \<not> (400 \<le> status_code r \<and> status_code r < 600)
              \<and> resp_json r = Inl e \<longrightarrow>
          R = (if is_request_exception e then logged e else (Inl e, w1))"
    by (auto simp: R raise_for_status_ok handler_def)
  have hs: "sent (snd (handler e)) = sent w @ [POST u data]" for e
    by (simp add: handler_def logged_def w1_def)
  have e: "sent (snd R) = sent w @ [POST u data]"
  proof (cases "net (POST u data)")
    case (Raises x)
    then show ?thesis by (simp add: R hs)
  next
    case (Returns r)
    then show ?thesis
      by (cases "raise_for_status r"; cases "resp_json r") (simp_all add: R hs w1_def)
  qed
  have f: "distinct (map fst kwargs) \<and> fst ` set kwargs \<inter> {''model'', ''messages'', ''max_tokens''} = {}
           \<longrightarrow> data = JObj (d0 @ kwargs)"
  proof
    assume h: "distinct (map fst kwargs) \<and> fst ` set kwargs \<inter> {''model'', ''messages'', ''max_tokens''} = {}"
    have "fst ` set d0 = {''model'', ''messages'', ''max_tokens''}"
      by (simp add: d0_def)
    with h have "dict_unpack d0 kwargs = d0 @ kwargs"
      by (intro dict_unpack_disjoint) simp_all
    then show "data = JObj (d0 @ kwargs)" by (simp add: data_def)
  qed
  from a a' b c d e f show ?thesis
    unfolding Let_def u_def d0_def data_def w1_def logged_def R_def by blast
qed

text \<open>
  At a connection error on the POST, with one keyword parameter: the same exception
  comes back, one line is on standard error, and the body has the four entries. And at
  a response with status 500: an \<open>HTTPError\<close> is raised and logged.
\<close>

theorem make_request_outcomes_witness:
  "make_request \<lparr>host = ''h'', port = 1, model = ''m'', base_url = ''http://h:1''\<rparr>
     (\<lambda>q. Raises (RequestException ConnectionError ''Connection failed''))
     [JObj [(''role'', JStr ''user''), (''content'', JStr ''Hello'')]] 300 [(''temperature'', JInt 1)]
     \<lparr>sent = [], stderr = []\<rparr>
   = (Inl (RequestException ConnectionError ''Connection failed''),
      \<lparr>sent = [POST ''http://h:1/v1/chat/completions''
                 (JObj [(''model'', JStr ''m''),
                        (''messages'', JList [JObj [(''role'', JStr ''user''), (''content'', JStr ''Hello'')]]),
                        (''max_tokens'', JInt 300), (''temperature'', JInt 1)])],
       stderr = [''Error making request to http://h:1/v1/chat/completions: Connection failed'']\<rparr>)
   \<and> (\<exists>msg. make_request \<lparr>host = ''h'', port = 1, model = ''m'', base_url = ''http://h:1''\<rparr>
     (\<lambda>q. Returns \<lparr>status_code = 500, resp_reason = ''Internal Server Error'',
                     resp_url = ''http://h:1/v1/chat/completions'', resp_text = [],
                     resp_json = Inl (RequestException JSONDecodeError ''Expecting value'')\<rparr>)
     [] 300 [] \<lparr>sent = [], stderr = []\<rparr>
   = (Inl (RequestException HTTPError msg),
      \<lparr>sent = [POST ''http://h:1/v1/chat/completions''
                 (JObj [(''model'', JStr ''m''), (''messages'', JList []), (''max_tokens'', JInt 300)])],
       stderr = [''Error making request to http://h:1/v1/chat/completions: '' @ msg]\<rparr>))"
proof -
  have a: "make_request \<lparr>host = ''h'', port = 1, model = ''m'', base_url = ''http://h:1''\<rparr>
     (\<lambda>q. Raises (RequestException ConnectionError ''Connection failed''))
     [JObj [(''role'', JStr ''user''), (''content'', JStr ''Hello'')]] 300 [(''temperature'', JInt 1)]
     \<lparr>sent = [], stderr = []\<rparr>
   = (Inl (RequestException ConnectionError ''Connection failed''),
      \<lparr>sent = [POST ''http://h:1/v1/chat/completions''
                 (JObj [(''model'', JStr ''m''),
                        (''messages'', JList [JObj [(''role'', JStr ''user''), (''content'', JStr ''Hello'')]]),
                        (''max_tokens'', JInt 300), (''temperature'', JInt 1)])],
       stderr = [''Error making request to http://h:1/v1/chat/completions: Connection failed'']\<rparr>)"
    using make_request_outcomes [of "\<lparr>host = ''h'', port = 1, model = ''m'', base_url = ''http://h:1''\<rparr>"
       "[JObj [(''role'', JStr ''user''), (''content'', JStr ''Hello'')]]" 300 "[(''temperature'', JInt 1)]"
       "\<lparr>sent = [], stderr = []\<rparr>"
       "\<lambda>q. Raises (RequestException ConnectionError ''Connection failed'')"]
    by (simp add: Let_def)
  have b: "\<exists>msg. make_request \<lparr>host = ''h'', port = 1, model = ''m'', base_url = ''http://h:1''\<rparr>
     (\<lambda>q. Returns \<lparr>status_code = 500, resp_reason = ''Internal Server Error'',
                     resp_url = ''http://h:1/v1/chat/completions'', resp_text = [],
                     resp_json = Inl (RequestException JSONDecodeError ''Expecting value'')\<rparr>)
     [] 300 [] \<lparr>sent = [], stderr = []\<rparr>
   = (Inl (RequestException HTTPError msg),
      \<lparr>sent = [POST ''http://h:1/v1/chat/completions''
                 (JObj [(''model'', JStr ''m''), (''messages'', JList []), (''max_tokens'', JInt 300)])],
       stderr = [''Error making request to http://h:1/v1/chat/completions: '' @ msg]\<rparr>)"
    using make_request_outcomes [of "\<lparr>host = ''h'', port = 1, model = ''m'', base_url = ''http://h:1''\<rparr>"
       "[]" 300 "[]" "\<lparr>sent = [], stderr = []\<rparr>"
       "\<lambda>q. Returns \<lparr>status_code = 500, resp_reason = ''Internal Server Error'',
                     resp_url = ''http://h:1/v1/chat/completions'', resp_text = [],
                     resp_json = Inl (RequestException JSONDecodeError ''Expecting value'')\<rparr>"]
    by (simp add: Let_def dict_unpack_def)
  from a b show ?thesis by (rule conjI)
qed

text \<open>
  Claim C6 as stated fails twice. A response with status 300 and the body \<open>{}\<close> is not
  2xx, yet its parsed body is returned, nothing is raised and nothing is logged. And
  for a client whose host has an empty label the POST raises urllib3's
  \<open>LocationParseError\<close>, which reaches the caller without a line on standard error.
\<close>

theorem make_request_counterexample:
  "make_request \<lparr>host = ''h'', port = 1, model = ''m'', base_url = ''http://h:1''\<rparr>
     (\<lambda>q. Returns \<lparr>status_code = 300, resp_reason = ''Multiple Choices'',
                     resp_url = ''http://h:1/v1/chat/completions'', resp_text = ''{}'',
                     resp_json = Inr (JObj [])\<rparr>)
     [] 300 [] \<lparr>sent = [], stderr = []\<rparr>
   = (Inr (JObj []),
      \<lparr>sent = [POST ''http://h:1/v1/chat/completions''
                 (JObj [(''model'', JStr ''m''), (''messages'', JList []), (''max_tokens'', JInt 300)])],
       stderr = []\<rparr>)
   \<and> make_request
     \<lparr>host = ''example..com'', port = 30000, model = ''m'', base_url = ''http://example..com:30000''\<rparr>
     (\<lambda>q. Raises (OtherException ''LocationParseError''
                     ''Failed to parse: 'example..com', label empty or too long''))
     [] 300 [] \<lparr>sent = [], stderr = []\<rparr>
   = (Inl (OtherException ''LocationParseError''
             ''Failed to parse: 'example..com', label empty or too long''),
      \<lparr>sent = [POST ''http://example..com:30000/v1/chat/completions''
                 (JObj [(''model'', JStr ''m''), (''messages'', JList []), (''max_tokens'', JInt 300)])],
       stderr = []\<rparr>)"
  by (simp add: make_request_def requests_post_def raise_for_status_def dict_unpack_def Let_def)


text \<open>
  Claim C7, as the code has it. On the same arguments \<open>make_request_raw\<close> and
  \<open>make_request\<close> hand the same single POST to the library, the same body for the same
  URL. Whenever \<open>make_request_raw\<close> raises, which is exactly when the POST raises or the
  status is from 400 to 599, \<open>make_request\<close> raises the same exception and leaves the
  same world, log line included. Whenever \<open>make_request_raw\<close> returns, it returns the
  body text of the response and logs nothing, and \<open>make_request\<close> returns the parsed
  JSON of that response in the same world if the body parses, and raises the exception
  of \<open>json()\<close>, the decoding error, if it does not.
\<close>

theorem make_request_raw_same_request_and_errors:
  "let u = base_url self @ ''/v1/chat/completions'';
       data = JObj (dict_unpack [(''model'', JStr (model self)), (''messages'', JList messages),
                                 (''max_tokens'', JInt max_tokens)] kwargs);
       R = make_request self net messages max_tokens kwargs w;
       Q = make_request_raw self net messages max_tokens kwargs w
   in sent (snd Q) = sent w @ [POST u data]
    \<and> sent (snd R) = sent (snd Q)
    \<and> (\<forall>e. fst Q = Inl e \<longrightarrow> R = (Inl e, snd Q))
    \<and> (\<forall>e. fst Q = Inl e \<longleftrightarrow>
          net (POST u data) = Raises e
          \<or> (\<exists>r. net (POST u data) = Returns r \<and> raise_for_status r = Some e))
    \<and> (\<forall>t. fst Q = Inr t \<longrightarrow>
          stderr (snd Q) = stderr w
          \<and> (\<exists>r. net (POST u data) = Returns r \<and> t = resp_text r
                \<and> \<not> (400 \<le> status_code r \<and> status_code r < 600)
                \<and> (case resp_json r of
                      Inr j \<Rightarrow> R = (Inr j, snd Q)
                    | Inl x \<Rightarrow> fst R = Inl x)))"
proof -
  define u where "u = base_url self @ ''/v1/chat/completions''"
  define data where "data = JObj (dict_unpack [(''model'', JStr (model self)), (''messages'', JList messages),
                          (''max_tokens'', JInt max_tokens)] kwargs)"
  define w1 where "w1 = w\<lparr>sent := sent w @ [POST u data]\<rparr>"
  define line where "line = (\<lambda>e. ''Error making request to '' @ u @ '': '' @ exc_str e)"
  define hw where "hw = (\<lambda>e. if is_request_exception e then print_stderr (line e) w1 else w1)"
  define R where "R = make_request self net messages max_tokens kwargs w"
  define Q where "Q = make_request_raw self net messages max_tokens kwargs w"
  have R: "R = (case net (POST u data) of
                  Raises e \<Rightarrow> (Inl e, hw e)
                | Returns r \<Rightarrow>
                    (case raise_for_status r of
                       Some e \<Rightarrow> (Inl e, hw e)
                     | None \<Rightarrow> (case resp_json r of
                                  Inl e \<Rightarrow> (Inl e, hw e)
                                | Inr j \<Rightarrow> (Inr j, w1))))"
    unfolding R_def make_request_def hw_def line_def w1_def data_def u_def
    by (simp add: requests_post_def Let_def split: http_outcome.splits option.splits sum.splits)
  have Q: "Q = (case net (POST u data) of
                  Raises e \<Rightarrow> (Inl e, hw e)
                | Returns r \<Rightarrow>
                    (case raise_for_status r of
                       Some e \<Rightarrow> (Inl e, hw e)
                     | None \<Rightarrow> (Inr (resp_text r), w1)))"
    unfolding Q_def make_request_raw_def hw_def line_def w1_def data_def u_def
    by (simp add: requests_post_def Let_def split: http_outcome.splits option.splits sum.splits)
  have sw: "sent (hw x) = sent w @ [POST u data]" "sent w1 = sent w @ [POST u data]"
    "stderr w1 = stderr w" for x
    by (simp_all add: hw_def print_stderr_def w1_def)
  have rfs: "raise_for_status r = None \<longleftrightarrow> \<not> (400 \<le> status_code r \<and> status_code r < 600)" for r
    by (auto simp: raise_for_status_def)
  have a: "sent (snd Q) = sent w @ [POST u data]"
    by (simp add: Q sw split: http_outcome.splits option.splits)
  have b: "sent (snd R) = sent (snd Q)"
    unfolding a by (simp add: R sw split: http_outcome.splits option.splits sum.splits)
  have c: "\<forall>e. fst Q = Inl e \<longrightarrow> R = (Inl e, snd Q)"
    by (auto simp: Q R split: http_outcome.splits option.splits)
  have d: "\<forall>e. fst Q = Inl e \<longleftrightarrow>
          net (POST u data) = Raises e
          \<or> (\<exists>r. net (POST u data) = Returns r \<and> raise_for_status r = Some e)"
    by (auto simp: Q split: http_outcome.splits option.splits)
  have e: "\<forall>t. fst Q = Inr t \<longrightarrow>
          stderr (snd Q) = stderr w
          \<and> (\<exists>r. net (POST u data) = Returns r \<and> t = resp_text r
                \<and> \<not> (400 \<le> status_code r \<and> status_code r < 600)
                \<and> (case resp_json r of
                      Inr j \<Rightarrow> R = (Inr j, snd Q)
                    | Inl x \<Rightarrow> fst R = Inl x))"
  proof (intro allI impI)
    fix t assume t: "fst Q = Inr t"
    then obtain r where r: "net (POST u data) = Returns r" "raise_for_status r = None" "t = resp_text r"
      by (auto simp: Q split: http_outcome.splits option.splits)
    then have q: "Q = (Inr t, w1)" by (simp add: Q)
    have "case resp_json r of
            Inr j \<Rightarrow> R = (Inr j, snd Q)
          | Inl x \<Rightarrow> fst R = Inl x"
      using r by (simp add: R q split: sum.splits)
    with r q sw show "stderr (snd Q) = stderr w
          \<and> (\<exists>r. net (POST u data) = Returns r \<and> t = resp_text r
                \<and> \<not> (400 \<le> status_code r \<and> status_code r < 600)
                \<and> (case resp_json r of
                      Inr j \<Rightarrow> R = (Inr j, snd Q)
                    | Inl x \<Rightarrow> fst R = Inl x))"
      using rfs by auto
  qed
  from a b c d e show ?thesis
    unfolding Let_def u_def data_def R_def Q_def by blast
qed

text \<open>At a response with status 200 and the body \<open>{}\<close>.\<close>

theorem make_request_raw_same_request_and_errors_witness:
  "make_request \<lparr>host = ''h'', port = 1, model = ''m'', base_url = ''http://h:1''\<rparr>
     (\<lambda>q. Returns \<lparr>status_code = 200, resp_reason = ''OK'',
                     resp_url = ''http://h:1/v1/chat/completions'', resp_text = ''{}'',
                     resp_json = Inr (JObj [])\<rparr>)
     [] 300 [] \<lparr>sent = [], stderr = []\<rparr>
   = (Inr (JObj []),
      snd (make_request_raw \<lparr>host = ''h'', port = 1, model = ''m'', base_url = ''http://h:1''\<rparr>
     (\<lambda>q. Returns \<lparr>status_code = 200, resp_reason = ''OK'',
                     resp_url = ''http://h:1/v1/chat/completions'', resp_text = ''{}'',
                     resp_json = Inr (JObj [])\<rparr>)
     [] 300 [] \<lparr>sent = [], stderr = []\<rparr>))"
proof -
  have q: "fst (make_request_raw \<lparr>host = ''h'', port = 1, model = ''m'', base_url = ''http://h:1''\<rparr>
     (\<lambda>q. Returns \<lparr>status_code = 200, resp_reason = ''OK'',
                     resp_url = ''http://h:1/v1/chat/completions'', resp_text = ''{}'',
                     resp_json = Inr (JObj [])\<rparr>)
     [] 300 [] \<lparr>sent = [], stderr = []\<rparr>) = Inr ''{}''"
    by (simp add: make_request_raw_def requests_post_def raise_for_status_def Let_def)
  show ?thesis
    using make_request_raw_same_request_and_errors [of "\<lparr>host = ''h'', port = 1, model = ''m'', base_url = ''http://h:1''\<rparr>"
      "[]" 300 "[]"
     "(\<lambda>q. Returns \<lparr>status_code = 200, resp_reason = ''OK'',
                     resp_url = ''http://h:1/v1/chat/completions'', resp_text = ''{}'',
                     resp_json = Inr (JObj [])\<rparr>)" "\<lparr>sent = [], stderr = []\<rparr>"] q
    by (simp add: Let_def)
qed

text \<open>
  Claim C7 as stated fails at a response with status 200 whose body is not JSON:
  \<open>make_request\<close> raises the decoding error where \<open>make_request_raw\<close> returns the
  text, so the two do not raise under the same conditions.
\<close>

theorem make_request_raw_counterexample:
  "fst (make_request \<lparr>host = ''h'', port = 1, model = ''m'', base_url = ''http://h:1''\<rparr>
     (\<lambda>q. Returns \<lparr>status_code = 200, resp_reason = ''OK'',
                     resp_url = ''http://h:1/v1/chat/completions'', resp_text = ''not json'',
                     resp_json = Inl (RequestException JSONDecodeError
                                        ''Expecting value: line 1 column 1 (char 0)'')\<rparr>)
     [] 300 [] \<lparr>sent = [], stderr = []\<rparr>)
     = Inl (RequestException JSONDecodeError ''Expecting value: line 1 column 1 (char 0)'')
   \<and> fst (make_request_raw \<lparr>host = ''h'', port = 1, model = ''m'', base_url = ''http://h:1''\<rparr>
     (\<lambda>q. Returns \<lparr>status_code = 200, resp_reason = ''OK'',
                     resp_url = ''http://h:1/v1/chat/completions'', resp_text = ''not json'',
                     resp_json = Inl (RequestException JSONDecodeError
                                        ''Expecting value: line 1 column 1 (char 0)'')\<rparr>)
     [] 300 [] \<lparr>sent = [], stderr = []\<rparr>)
     = Inr ''not json''"
  by (simp add: make_request_def make_request_raw_def requests_post_def raise_for_status_def Let_def)

section \<open>Properties of message.py on the store\<close>

text \<open>
  The loop ends when the list it reads is not the list it appends to: then it appends
  the image blocks of the remaining elements and changes nothing else.
\<close>

lemma append_images_run:
  "a < length h \<Longrightarrow> c < length h \<Longrightarrow> a \<noteq> c \<Longrightarrow> i \<le> length (h ! a) \<Longrightarrow>
   append_images a c i h = Some (h[c := h ! c @ map image_block (drop i (h ! a))])"
proof (induction "length (h ! a) - i" arbitrary: i h)
  case 0
  then show ?case by (subst append_images.simps) simp
next
  case (Suc n)
  let ?h = "list_append c (image_block (h ! a ! i)) h"
  from Suc have lt: "i < length (h ! a)" by simp
  have same: "?h ! a = h ! a" using Suc.prems by (simp add: list_append_def)
  have "append_images a c (Suc i) ?h = Some (?h[c := ?h ! c @ map image_block (drop (Suc i) (?h ! a))])"
    using Suc same by (intro Suc.hyps) (simp_all add: list_append_def)
  moreover have "?h[c := ?h ! c @ map image_block (drop (Suc i) (?h ! a))]
      = h[c := h ! c @ map image_block (drop i (h ! a))]"
    using Suc.prems lt by (simp add: same list_append_def Cons_nth_drop_Suc[symmetric])
  ultimately show ?case using lt by (subst append_images.simps) simp
qed

lemma create_message_heap_run:
  assumes "a < length h"
  shows "create_message_heap text (Some a) h =
     Some (if h ! a = [] then [JObj [(''role'', JStr ''user''), (''content'', JStr text)]]
           else [JObj [(''role'', JStr ''user''),
                       (''content'', JList (map image_block (h ! a) @ [text_block text]))]],
           h @ [map image_block (h ! a) @ [text_block text]])"
proof (cases "h ! a = []")
  case True
  then show ?thesis using assms
    by (simp add: create_message_heap_def alloc_def truthy_ref_def list_append_def nth_append)
next
  case False
  have "append_images a (length h) 0 (h @ [[]])
      = Some ((h @ [[]])[length h := (h @ [[]]) ! length h @ map image_block (drop 0 ((h @ [[]]) ! a))])"
    using assms by (intro append_images_run) (simp_all add: nth_append)
  then have "append_images a (length h) 0 (h @ [[]]) = Some (h @ [map image_block (h ! a)])"
    using assms by (simp add: nth_append)
  then show ?thesis using assms False
    by (simp add: create_message_heap_def alloc_def truthy_ref_def list_append_def nth_append)
qed

lemma create_message_heap_none:
  "create_message_heap text None h =
     Some ([JObj [(''role'', JStr ''user''), (''content'', JStr text)]], h @ [[text_block text]])"
  by (simp add: create_message_heap_def alloc_def truthy_ref_def list_append_def)

text \<open>
  Claim C10. \<open>create_message\<close> never mutates its \<open>image_urls\<close> argument: called with
  the address of any list in the store it returns, and afterwards that list, like every
  other list that was in the store before the call, has the same elements in the same
  order; the only change is one new list, the \<open>content\<close> it allocated. The value
  returned is that of \<open>create_message\<close> on the list's elements. The same holds when
  the argument is \<open>None\<close>.
\<close>

theorem create_message_heap_frame:
  "(a < length h \<longrightarrow>
      (\<exists>v h'. create_message_heap text (Some a) h = Some (v, h')
         \<and> h' ! a = h ! a
         \<and> (\<forall>b<length h. h' ! b = h ! b)
         \<and> length h' = length h + 1
         \<and> (\<forall>urls. h ! a = map JStr urls \<longrightarrow> v = create_message text (Some urls))))
   \<and> (\<exists>v h'. create_message_heap text None h = Some (v, h')
         \<and> (\<forall>b<length h. h' ! b = h ! b)
         \<and> v = create_message text None)"
proof (intro conjI impI)
  assume a: "a < length h"
  let ?v = "if h ! a = [] then [JObj [(''role'', JStr ''user''), (''content'', JStr text)]]
           else [JObj [(''role'', JStr ''user''),
                       (''content'', JList (map image_block (h ! a) @ [text_block text]))]]"
  let ?h' = "h @ [map image_block (h ! a) @ [text_block text]]"
  have run: "create_message_heap text (Some a) h = Some (?v, ?h')"
    using a by (rule create_message_heap_run)
  have pure: "\<forall>urls. h ! a = map JStr urls \<longrightarrow> ?v = create_message text (Some urls)"
  proof (intro allI impI)
    fix urls assume u: "h ! a = map JStr urls"
    show "?v = create_message text (Some urls)"
    proof (cases "urls = []")
      case True
      then show ?thesis using u by (simp add: create_message_no_images truthy_list_def)
    next
      case False
      then show ?thesis using u by (simp add: create_message_images)
    qed
  qed
  have "?h' ! a = h ! a" "\<forall>b<length h. ?h' ! b = h ! b" "length ?h' = length h + 1"
    using a by (simp_all add: nth_append)
  with run pure show "\<exists>v h'. create_message_heap text (Some a) h = Some (v, h')
         \<and> h' ! a = h ! a
         \<and> (\<forall>b<length h. h' ! b = h ! b)
         \<and> length h' = length h + 1
         \<and> (\<forall>urls. h ! a = map JStr urls \<longrightarrow> v = create_message text (Some urls))"
    by blast
next
  show "\<exists>v h'. create_message_heap text None h = Some (v, h')
         \<and> (\<forall>b<length h. h' ! b = h ! b)
         \<and> v = create_message text None"
    by (simp add: create_message_heap_none create_message_no_images truthy_list_def nth_append)
qed

text \<open>At a store holding one list of two URLs.\<close>

theorem create_message_heap_frame_witness:
  "(0::nat) < length [[JStr ''https://a/1.jpg'', JStr ''https://a/2.jpg'']]
   \<and> (\<exists>v h'. create_message_heap ''Describe'' (Some 0) [[JStr ''https://a/1.jpg'', JStr ''https://a/2.jpg'']]
               = Some (v, h')
         \<and> h' ! 0 = [JStr ''https://a/1.jpg'', JStr ''https://a/2.jpg'']
         \<and> v = create_message ''Describe'' (Some [''https://a/1.jpg'', ''https://a/2.jpg'']))"
  using create_message_heap_frame [of 0 "[[JStr ''https://a/1.jpg'', JStr ''https://a/2.jpg'']]" "''Describe''"]
  by auto


end
